theory Spec2Isabelle
  imports Complex_Main
begin

section \<open>Text\<close>

text \<open>
  A Python \<^verbatim>\<open>str\<close> is a sequence of Unicode code points, so a text is a list of
  natural numbers, one per code point. Labels that the program only stores and compares
  (method names, token symbols, tier names) are ordinary strings.
\<close>

type_synonym pystr = "nat list"

definition ascii :: "string \<Rightarrow> pystr" where
  "ascii s = map of_char s"

section \<open>The 13 truth tiers\<close>

text \<open>
  \<^verbatim>\<open>class TruthTier(Enum)\<close>: every member is a triple (tier number, name, resistance).
  The resistance literals are written as the decimals they denote.
\<close>

datatype TruthTier =
    T0_AXIOMATIC | T1_MATHEMATICAL | T2_LOGICAL | T3_EMPIRICAL_STABLE
  | T4_EMPIRICAL_MEASURED | T5_DOCUMENTARY | T6_CONTEXTUAL | T7_TEMPORAL
  | T8_TESTIMONIAL | T9_SOCIAL | T10_COGNITIVE | T11_SPECULATIVE | T12_INTEGRITY

fun tier_num :: "TruthTier \<Rightarrow> int" where
  "tier_num T0_AXIOMATIC = 0"
| "tier_num T1_MATHEMATICAL = 1"
| "tier_num T2_LOGICAL = 2"
| "tier_num T3_EMPIRICAL_STABLE = 3"
| "tier_num T4_EMPIRICAL_MEASURED = 4"
| "tier_num T5_DOCUMENTARY = 5"
| "tier_num T6_CONTEXTUAL = 6"
| "tier_num T7_TEMPORAL = 7"
| "tier_num T8_TESTIMONIAL = 8"
| "tier_num T9_SOCIAL = 9"
| "tier_num T10_COGNITIVE = 10"
| "tier_num T11_SPECULATIVE = 11"
| "tier_num T12_INTEGRITY = 12"

fun tier_name :: "TruthTier \<Rightarrow> string" where
  "tier_name T0_AXIOMATIC = ''Axiomatic''"
| "tier_name T1_MATHEMATICAL = ''Mathematical''"
| "tier_name T2_LOGICAL = ''Logical''"
| "tier_name T3_EMPIRICAL_STABLE = ''Empirical-Stable''"
| "tier_name T4_EMPIRICAL_MEASURED = ''Empirical-Measured''"
| "tier_name T5_DOCUMENTARY = ''Documentary''"
| "tier_name T6_CONTEXTUAL = ''Contextual''"
| "tier_name T7_TEMPORAL = ''Temporal''"
| "tier_name T8_TESTIMONIAL = ''Testimonial''"
| "tier_name T9_SOCIAL = ''Social/Consensus''"
| "tier_name T10_COGNITIVE = ''Cognitive/Subjective''"
| "tier_name T11_SPECULATIVE = ''Speculative''"
| "tier_name T12_INTEGRITY = ''Integrity Violation''"

fun resistance :: "TruthTier \<Rightarrow> rat" where
  "resistance T0_AXIOMATIC = 0"
| "resistance T1_MATHEMATICAL = 1 / 1000"
| "resistance T2_LOGICAL = 5 / 1000"
| "resistance T3_EMPIRICAL_STABLE = 10 / 1000"
| "resistance T4_EMPIRICAL_MEASURED = 30 / 1000"
| "resistance T5_DOCUMENTARY = 50 / 1000"
| "resistance T6_CONTEXTUAL = 80 / 1000"
| "resistance T7_TEMPORAL = 120 / 1000"
| "resistance T8_TESTIMONIAL = 180 / 1000"
| "resistance T9_SOCIAL = 250 / 1000"
| "resistance T10_COGNITIVE = 350 / 1000"
| "resistance T11_SPECULATIVE = 500 / 1000"
| "resistance T12_INTEGRITY = 1"

text \<open>The members in declaration order, as iterating the enum yields them.\<close>

definition ALL_TIERS :: "TruthTier list" where
  "ALL_TIERS =
     [T0_AXIOMATIC, T1_MATHEMATICAL, T2_LOGICAL, T3_EMPIRICAL_STABLE,
      T4_EMPIRICAL_MEASURED, T5_DOCUMENTARY, T6_CONTEXTUAL, T7_TEMPORAL,
      T8_TESTIMONIAL, T9_SOCIAL, T10_COGNITIVE, T11_SPECULATIVE, T12_INTEGRITY]"

section \<open>Python string operations\<close>

text \<open>
  \<^verbatim>\<open>str.lower\<close>, \<^verbatim>\<open>str.split\<close> and the classes \<^verbatim>\<open>\w\<close>, \<^verbatim>\<open>\d\<close>, \<^verbatim>\<open>\s\<close> of the
  \<^verbatim>\<open>re\<close> module consult the Unicode character database of the interpreter. On ASCII
  the functions below compute what Python computes. The whitespace set is small and is
  written out in full. For every other code point the answer of the database is a
  parameter \<open>U\<close>, so that whatever is proved holds for every database. Lowering one
  code point may yield several and, for the capital sigma, depends on the neighbours:
  the parameter gets the code points before, the code point, and those after.
\<close>

record unicode_db =
  u_word :: "nat \<Rightarrow> bool"
  u_decimal :: "nat \<Rightarrow> bool"
  u_lower :: "pystr \<Rightarrow> nat \<Rightarrow> pystr \<Rightarrow> pystr"

definition is_space :: "nat \<Rightarrow> bool" where
  "is_space c \<longleftrightarrow>
     (9 \<le> c \<and> c \<le> 13) \<or> (28 \<le> c \<and> c \<le> 32) \<or> c = 133 \<or> c = 160 \<or> c = 5760
     \<or> (8192 \<le> c \<and> c \<le> 8202) \<or> c = 8232 \<or> c = 8233 \<or> c = 8239 \<or> c = 8287
     \<or> c = 12288"

definition is_digit :: "unicode_db \<Rightarrow> nat \<Rightarrow> bool" where
  "is_digit U c = (if c < 128 then 48 \<le> c \<and> c \<le> 57 else u_decimal U c)"

definition is_word :: "unicode_db \<Rightarrow> nat \<Rightarrow> bool" where
  "is_word U c =
     (if c < 128
      then (48 \<le> c \<and> c \<le> 57) \<or> (65 \<le> c \<and> c \<le> 90) \<or> c = 95 \<or> (97 \<le> c \<and> c \<le> 122)
      else u_word U c)"

text \<open>
  The source text itself holds two code points beyond ASCII, in the axioms and in one
  keyword: 957 (Greek small letter nu) and 960 (Greek small letter pi). Both are
  lowercase letters, which \<^verbatim>\<open>str.lower\<close> keeps.
\<close>

definition lower_cp :: "unicode_db \<Rightarrow> pystr \<Rightarrow> nat \<Rightarrow> pystr \<Rightarrow> pystr" where
  "lower_cp U before c after =
     (if 65 \<le> c \<and> c \<le> 90 then [c + 32]
      else if c < 128 \<or> c = 957 \<or> c = 960 then [c]
      else u_lower U before c after)"

fun lower_from :: "unicode_db \<Rightarrow> pystr \<Rightarrow> pystr \<Rightarrow> pystr" where
  "lower_from U before [] = []"
| "lower_from U before (c # cs) = lower_cp U before c cs @ lower_from U (before @ [c]) cs"

definition py_lower :: "unicode_db \<Rightarrow> pystr \<Rightarrow> pystr" where
  "py_lower U s = lower_from U [] s"

text \<open>\<^verbatim>\<open>s.split()\<close>: the maximal runs of code points that are not whitespace.\<close>

fun split_acc :: "pystr \<Rightarrow> pystr \<Rightarrow> pystr list" where
  "split_acc w [] = (if w = [] then [] else [w])"
| "split_acc w (c # cs) =
     (if is_space c then (if w = [] then split_acc [] cs else w # split_acc [] cs)
      else split_acc (w @ [c]) cs)"

definition py_split :: "pystr \<Rightarrow> pystr list" where
  "py_split s = split_acc [] s"

text \<open>\<^verbatim>\<open>w in s\<close> on strings: \<open>w\<close> occurs in \<open>s\<close> as a contiguous piece.\<close>

fun starts_with :: "pystr \<Rightarrow> pystr \<Rightarrow> bool" where
  "starts_with [] s = True"
| "starts_with (a # w) [] = False"
| "starts_with (a # w) (c # cs) = (a = c \<and> starts_with w cs)"

fun contains :: "pystr \<Rightarrow> pystr \<Rightarrow> bool" where
  "contains w [] = (w = [])"
| "contains w (c # cs) = (starts_with w (c # cs) \<or> contains w cs)"

text \<open>\<^verbatim>\<open>any(kw in s for kw in kws)\<close>.\<close>

definition any_in :: "pystr list \<Rightarrow> pystr \<Rightarrow> bool" where
  "any_in kws s = list_ex (\<lambda>kw. contains kw s) kws"

section \<open>Floating point\<close>

text \<open>
  The only floating-point arithmetic of the program is \<^verbatim>\<open>len(axiom_words) * 0.6\<close>. A
  double is modelled by its significand and exponent: \<open>Float m e\<close> stands for
  \<open>m * 2 ^ e\<close>. A product is rounded to 53 significant bits, ties to even, as IEEE 754
  does (no overflow or underflow can occur at the magnitudes of a word count). The
  floating-point literals that the program only stores and returns (resistances,
  confidences) are written as the decimals they denote.
\<close>

datatype pyfloat = Float nat int

fun fval :: "pyfloat \<Rightarrow> rat" where
  "fval (Float m e) = of_nat m * (if 0 \<le> e then 2 ^ nat e else 1 / 2 ^ nat (- e))"

fun bit_length :: "nat \<Rightarrow> nat" where
  "bit_length n = (if n = 0 then 0 else Suc (bit_length (n div 2)))"

declare bit_length.simps [simp del]

definition round53 :: "nat \<Rightarrow> int \<Rightarrow> pyfloat" where
  "round53 m e =
     (if bit_length m \<le> 53 then Float m e
      else
        let sh = bit_length m - 53;
            q = m div 2 ^ sh;
            r = m mod 2 ^ sh;
            half = 2 ^ (sh - 1)
        in Float (if r < half \<or> (r = half \<and> even q) then q else q + 1) (e + int sh))"

definition float_of_nat :: "nat \<Rightarrow> pyfloat" where
  "float_of_nat n = round53 n 0"

fun float_mul :: "pyfloat \<Rightarrow> pyfloat \<Rightarrow> pyfloat" where
  "float_mul (Float m1 e1) (Float m2 e2) = round53 (m1 * m2) (e1 + e2)"

text \<open>The literal \<^verbatim>\<open>0.6\<close>: the double nearest to 6/10.\<close>

definition LIT_0_6 :: pyfloat where
  "LIT_0_6 = Float 5404319552844595 (- 53)"

text \<open>\<^verbatim>\<open>n >= x\<close> for an int \<open>n\<close> and a float \<open>x\<close>: Python compares the exact values.\<close>

definition int_ge_float :: "nat \<Rightarrow> pyfloat \<Rightarrow> bool" where
  "int_ge_float n x \<longleftrightarrow> fval x \<le> of_nat n"

section \<open>The Truth Floor\<close>

definition TRUTH_FLOOR :: "pystr list" where
  "TRUTH_FLOOR =
     [ascii ''This statement exists'',
      ascii ''A and not-A cannot both be true in the same context'',
      ascii ''Energy is conserved'',
      ascii ''c = 299792458 m/s in vacuum'',
      ascii ''E = h'' @ [957],
      [960] @ ascii '' is transcendental'',
      ascii ''e is transcendental'',
      ascii ''Every integer greater than 1 has unique prime factorization'',
      ascii ''Shannon entropy of any message is >= 0'',
      ascii ''Entropy of an isolated system never decreases'',
      ascii ''An unknown quantum state cannot be perfectly cloned'',
      ascii ''Verifying the Truth Floor adds zero net friction'']"

definition STOP_WORDS :: "pystr list" where
  "STOP_WORDS = map ascii [''the'', ''a'', ''is'', ''of'', ''in'', ''to'', ''and'', ''an'']"

text \<open>
  \<^verbatim>\<open>set(axiom.lower().split()) - {...}\<close>: a set, here a list without repetitions. The
  program only counts its members, so the order is immaterial.
\<close>

definition axiom_words :: "unicode_db \<Rightarrow> pystr \<Rightarrow> pystr list" where
  "axiom_words U axiom =
     filter (\<lambda>w. w \<notin> set STOP_WORDS) (remdups (py_split (py_lower U axiom)))"

definition axiom_matches :: "unicode_db \<Rightarrow> pystr \<Rightarrow> pystr \<Rightarrow> bool" where
  "axiom_matches U claim_lower axiom =
     (let ws = axiom_words U axiom;
          matches = length (filter (\<lambda>w. contains w claim_lower) ws)
      in int_ge_float matches (float_mul (float_of_nat (length ws)) LIT_0_6))"

text \<open>The loop over the axioms, returning at the first one that matches.\<close>

fun first_axiom :: "unicode_db \<Rightarrow> pystr \<Rightarrow> pystr list \<Rightarrow> pystr option" where
  "first_axiom U claim_lower [] = None"
| "first_axiom U claim_lower (axiom # rest) =
     (if axiom_matches U claim_lower axiom then Some axiom
      else first_axiom U claim_lower rest)"

definition check_truth_floor :: "unicode_db \<Rightarrow> pystr \<Rightarrow> pystr option" where
  "check_truth_floor U claim = first_axiom U (py_lower U claim) TRUTH_FLOOR"

section \<open>Regular expressions\<close>

text \<open>
  The patterns of the program use literals, the classes \<^verbatim>\<open>\d\<close>, \<^verbatim>\<open>\s\<close>, \<^verbatim>\<open>\w\<close> and a
  bracketed set, the quantifiers \<^verbatim>\<open>+\<close> and \<^verbatim>\<open>*\<close> on a class, \<^verbatim>\<open>?\<close>, alternation,
  concatenation and the word boundary \<^verbatim>\<open>\b\<close>. The program only asks whether
  \<^verbatim>\<open>re.search\<close> finds a match, and a backtracking matcher finds one exactly when one
  exists. A matcher state is the code point just before the position (if any) and the
  rest of the subject; matching a pattern at a state yields every state it can end in.
\<close>

datatype cclass = CDigit | CSpace | CWord | COneOf "nat list"

datatype regex =
    Lit pystr
  | Cls cclass
  | Plus cclass
  | Star cclass
  | Opt regex
  | Alt "regex list"
  | Seq "regex list"
  | WordB

fun in_class :: "unicode_db \<Rightarrow> cclass \<Rightarrow> nat \<Rightarrow> bool" where
  "in_class U CDigit c = is_digit U c"
| "in_class U CSpace c = is_space c"
| "in_class U CWord c = is_word U c"
| "in_class U (COneOf cs) c = (c \<in> set cs)"

type_synonym mstate = "nat option \<times> pystr"

fun star_ends :: "unicode_db \<Rightarrow> cclass \<Rightarrow> nat option \<Rightarrow> pystr \<Rightarrow> mstate list" where
  "star_ends U cl p [] = [(p, [])]"
| "star_ends U cl p (c # cs) =
     (p, c # cs) # (if in_class U cl c then star_ends U cl (Some c) cs else [])"

fun after_lit :: "pystr \<Rightarrow> nat option \<Rightarrow> pystr \<Rightarrow> mstate list" where
  "after_lit [] p s = [(p, s)]"
| "after_lit (a # w) p [] = []"
| "after_lit (a # w) p (c # cs) = (if a = c then after_lit w (Some c) cs else [])"

text \<open>
  \<^verbatim>\<open>\b\<close>: exactly one of the two neighbours is a word character; beyond either end of
  the subject there is none.
\<close>

fun word_before :: "unicode_db \<Rightarrow> nat option \<Rightarrow> bool" where
  "word_before U None = False"
| "word_before U (Some c) = is_word U c"

fun word_after :: "unicode_db \<Rightarrow> pystr \<Rightarrow> bool" where
  "word_after U [] = False"
| "word_after U (c # cs) = is_word U c"

fun rmatch :: "unicode_db \<Rightarrow> regex \<Rightarrow> nat option \<Rightarrow> pystr \<Rightarrow> mstate list"
  and rmatch_alt :: "unicode_db \<Rightarrow> regex list \<Rightarrow> nat option \<Rightarrow> pystr \<Rightarrow> mstate list"
  and rmatch_seq :: "unicode_db \<Rightarrow> regex list \<Rightarrow> mstate list \<Rightarrow> mstate list"
where
  "rmatch U (Lit w) p s = after_lit w p s"
| "rmatch U (Cls cl) p [] = []"
| "rmatch U (Cls cl) p (c # cs) = (if in_class U cl c then [(Some c, cs)] else [])"
| "rmatch U (Plus cl) p [] = []"
| "rmatch U (Plus cl) p (c # cs) = (if in_class U cl c then star_ends U cl (Some c) cs else [])"
| "rmatch U (Star cl) p s = star_ends U cl p s"
| "rmatch U (Opt r) p s = (p, s) # rmatch U r p s"
| "rmatch U (Alt rs) p s = rmatch_alt U rs p s"
| "rmatch U (Seq rs) p s = rmatch_seq U rs [(p, s)]"
| "rmatch U WordB p s = (if word_before U p \<noteq> word_after U s then [(p, s)] else [])"
| "rmatch_alt U [] p s = []"
| "rmatch_alt U (r # rs) p s = rmatch U r p s @ rmatch_alt U rs p s"
| "rmatch_seq U [] sts = sts"
| "rmatch_seq U (r # rs) sts =
     rmatch_seq U rs (concat (map (\<lambda>st. rmatch U r (fst st) (snd st)) sts))"

text \<open>\<^verbatim>\<open>re.search(pattern, s)\<close> is not \<^verbatim>\<open>None\<close>: a match starts at some position.\<close>

fun search_from :: "unicode_db \<Rightarrow> regex \<Rightarrow> nat option \<Rightarrow> pystr \<Rightarrow> bool" where
  "search_from U r p [] = (rmatch U r p [] \<noteq> [])"
| "search_from U r p (c # cs) = (rmatch U r p (c # cs) \<noteq> [] \<or> search_from U r (Some c) cs)"

definition re_search :: "unicode_db \<Rightarrow> regex \<Rightarrow> pystr \<Rightarrow> bool" where
  "re_search U r s = search_from U r None s"

definition lit :: "string \<Rightarrow> regex" where
  "lit w = Lit (ascii w)"

definition alts :: "string list \<Rightarrow> regex" where
  "alts ws = Alt (map lit ws)"

text \<open>\<^verbatim>\<open>\bphrase\b\<close>.\<close>

definition phrase :: "string \<Rightarrow> regex" where
  "phrase w = Seq [WordB, lit w, WordB]"

section \<open>Epistemic subject detection\<close>

datatype EpistemicLevel =
  A_PRIORI | A_POSTERIORI | INTROSPECTIVE | TESTIMONIAL | NORMATIVE | SPECULATIVE

fun level_value :: "EpistemicLevel \<Rightarrow> string" where
  "level_value A_PRIORI = ''a_priori''"
| "level_value A_POSTERIORI = ''a_posteriori''"
| "level_value INTROSPECTIVE = ''introspective''"
| "level_value TESTIMONIAL = ''testimonial''"
| "level_value NORMATIVE = ''normative''"
| "level_value SPECULATIVE = ''speculative''"

record EpistemicSubject =
  subject_type :: string
  subject_name :: "string option"
  epistemic_level :: EpistemicLevel
  es_confidence :: rat
  access_type :: string
  es_verifiability :: string

definition INTROSPECTIVE_PATTERNS :: "regex list" where
  "INTROSPECTIVE_PATTERNS =
     [Seq [WordB, lit ''i'', Plus CSpace,
           alts [''feel'', ''think'', ''believe'', ''want'', ''like'', ''hate'', ''love'',
                 ''prefer'', ''know'', ''remember''], WordB],
      Seq [WordB, lit ''my'', Plus CSpace,
           alts [''opinion'', ''view'', ''feeling'', ''experience'', ''belief''], WordB],
      phrase ''to me'',
      phrase ''for me'',
      Seq [WordB, Lit (ascii ''i'' @ [39] @ ascii ''m''), Plus CSpace,
           alts [''sure'', ''certain'', ''convinced''], WordB]]"

definition TESTIMONIAL_PATTERNS :: "regex list" where
  "TESTIMONIAL_PATTERNS =
     [Seq [WordB, alts [''he'', ''she'', ''they'', ''it''], Plus CSpace,
           alts [''said'', ''told'', ''claimed'', ''stated'', ''believes'', ''thinks''], WordB],
      phrase ''according to'',
      Seq [WordB, Plus CWord, Plus CSpace, lit ''says'', WordB],
      phrase ''reportedly'',
      phrase ''allegedly'']"

definition AUTHORITY_PATTERNS :: "regex list" where
  "AUTHORITY_PATTERNS =
     [Seq [WordB, lit ''scientist'', Opt (lit ''s''), Plus CSpace,
           alts [''say'', ''believe'', ''found'', ''discovered''], WordB],
      Seq [WordB, lit ''research'', Plus CSpace,
           Alt [Seq [lit ''show'', Opt (lit ''s'')], Seq [lit ''indicate'', Opt (lit ''s'')],
                Seq [lit ''suggest'', Opt (lit ''s'')]], WordB],
      Seq [WordB, lit ''expert'', Opt (lit ''s''), Plus CSpace,
           alts [''say'', ''believe'', ''agree''], WordB],
      Seq [WordB, lit ''the'', Plus CSpace, lit ''study'', Plus CSpace,
           alts [''found'', ''shows'', ''indicates''], WordB]]"

definition APRIORI_PATTERNS :: "regex list" where
  "APRIORI_PATTERNS =
     [Seq [WordB, Plus CDigit, Star CSpace, Cls (COneOf (ascii ''+-*/'')), Star CSpace,
           Plus CDigit, Star CSpace, lit ''='', Star CSpace, Plus CDigit, WordB],
      Seq [WordB, Plus CDigit, Star CSpace, Cls (COneOf (ascii ''+-*/'')), Star CSpace,
           Plus CDigit, WordB],
      phrase ''by definition'',
      phrase ''necessarily'',
      phrase ''logically'',
      Seq [WordB, lit ''all'', Plus CSpace, Plus CWord, Plus CSpace, lit ''are'', WordB],
      Seq [WordB, lit ''no'', Plus CSpace, Plus CWord, Plus CSpace, lit ''is'', WordB]]"

definition NORMATIVE_PATTERNS :: "regex list" where
  "NORMATIVE_PATTERNS =
     [phrase ''should'', phrase ''ought'', phrase ''must'', phrase ''need to'',
      Seq [WordB, lit ''is'', Plus CSpace,
           alts [''right'', ''wrong'', ''good'', ''bad'', ''moral'', ''immoral''], WordB]]"

text \<open>
  One \<^verbatim>\<open>for pattern in PATTERNS: if re.search(pattern, text_lower): return ...\<close> loop:
  whether the loop returns.
\<close>

fun any_pattern :: "unicode_db \<Rightarrow> regex list \<Rightarrow> pystr \<Rightarrow> bool" where
  "any_pattern U [] t = False"
| "any_pattern U (p # ps) t = (if re_search U p t then True else any_pattern U ps t)"

definition detect :: "unicode_db \<Rightarrow> pystr \<Rightarrow> EpistemicSubject" where
  "detect U txt =
     (let text_lower = py_lower U txt in
      if any_pattern U INTROSPECTIVE_PATTERNS text_lower then
        \<lparr>subject_type = ''self'', subject_name = None, epistemic_level = INTROSPECTIVE,
         es_confidence = 1, access_type = ''direct'', es_verifiability = ''unfalsifiable''\<rparr>
      else if any_pattern U TESTIMONIAL_PATTERNS text_lower then
        \<lparr>subject_type = ''other'', subject_name = None, epistemic_level = TESTIMONIAL,
         es_confidence = 7 / 10, access_type = ''reported'', es_verifiability = ''partial''\<rparr>
      else if any_pattern U AUTHORITY_PATTERNS text_lower then
        \<lparr>subject_type = ''authority'', subject_name = None, epistemic_level = A_POSTERIORI,
         es_confidence = 85 / 100, access_type = ''reported'', es_verifiability = ''verifiable''\<rparr>
      else if any_pattern U APRIORI_PATTERNS text_lower then
        \<lparr>subject_type = ''universal'', subject_name = None, epistemic_level = A_PRIORI,
         es_confidence = 1, access_type = ''direct'', es_verifiability = ''verifiable''\<rparr>
      else if any_pattern U NORMATIVE_PATTERNS text_lower then
        \<lparr>subject_type = ''anonymous'', subject_name = None, epistemic_level = NORMATIVE,
         es_confidence = 6 / 10, access_type = ''inferred'', es_verifiability = ''partial''\<rparr>
      else
        \<lparr>subject_type = ''anonymous'', subject_name = None, epistemic_level = A_POSTERIORI,
         es_confidence = 8 / 10, access_type = ''direct'', es_verifiability = ''verifiable''\<rparr>)"

section \<open>The token table and the classifier\<close>

datatype TruthToken =
  TruthToken (tok_symbol: string) (tok_tier: TruthTier) (tok_name: string)
    (tok_definition: string) (tok_keywords: "pystr list")

text \<open>
  \<^verbatim>\<open>TTO_TOKENS\<close> is a dictionary; Python dictionaries keep the order of insertion, so it
  is the list of its items in that order.
\<close>

definition TTO_TOKENS :: "(string \<times> TruthToken) list" where
  "TTO_TOKENS =
     [
      (''TautologyTT'', TruthToken ''TautologyTT'' T0_AXIOMATIC ''Tautology'' ''Self-evidently true''
         (map ascii [''tautology'', ''by definition'', ''necessarily''])),
      (''ExistenceTT'', TruthToken ''ExistenceTT'' T0_AXIOMATIC ''Existence'' ''Existence claim''
         (map ascii [''exists'', ''there is'', ''being''])),
      (''IdentityTT'', TruthToken ''IdentityTT'' T0_AXIOMATIC ''Identity'' ''A = A''
         (map ascii [''identical'', ''same as'', ''equals itself''])),
      (''MathematicalTT'', TruthToken ''MathematicalTT'' T1_MATHEMATICAL ''Mathematical'' ''Provable calculation''
         (map ascii [''equals'', ''sum'', ''calculate'', ''compute'', ''math'', ''+'', ''-'', ''*'', ''/'', ''=''])),
      (''PhysicalConstantTT'', TruthToken ''PhysicalConstantTT'' T1_MATHEMATICAL ''Physical Constant'' ''Defined constant''
         ([ascii ''speed of light'', ascii ''planck'', ascii ''constant'', ascii ''c ='', [960], ascii ''299792458''])),
      (''DefinitionalTT'', TruthToken ''DefinitionalTT'' T1_MATHEMATICAL ''Definitional'' ''True by definition''
         (map ascii [''defined as'', ''by definition'', ''means''])),
      (''DeductiveTT'', TruthToken ''DeductiveTT'' T2_LOGICAL ''Deductive'' ''Valid deduction''
         (map ascii [''therefore'', ''thus'', ''hence'', ''it follows''])),
      (''SyllogisticTT'', TruthToken ''SyllogisticTT'' T2_LOGICAL ''Syllogistic'' ''Syllogism''
         (map ascii [''all'', ''some'', ''no'', ''if then''])),
      (''BinaryLogicalTT'', TruthToken ''BinaryLogicalTT'' T2_LOGICAL ''Binary Logic'' ''Boolean logic''
         (map ascii [''and'', ''or'', ''not'', ''xor'', ''implies''])),
      (''ScientificLawTT'', TruthToken ''ScientificLawTT'' T3_EMPIRICAL_STABLE ''Scientific Law'' ''Established law''
         (map ascii [''law of'', ''always'', ''never'', ''universal''])),
      (''UniversalTT'', TruthToken ''UniversalTT'' T3_EMPIRICAL_STABLE ''Universal Fact'' ''Universal truth''
         (map ascii [''everywhere'', ''all'', ''every'', ''always''])),
      (''AtomicFactTT'', TruthToken ''AtomicFactTT'' T3_EMPIRICAL_STABLE ''Atomic Fact'' ''Simple verifiable fact''
         (map ascii [''is'', ''has'', ''contains''])),
      (''EmpiricalTT'', TruthToken ''EmpiricalTT'' T4_EMPIRICAL_MEASURED ''Empirical'' ''From observation''
         (map ascii [''observed'', ''measured'', ''experiment''])),
      (''StatisticalTT'', TruthToken ''StatisticalTT'' T4_EMPIRICAL_MEASURED ''Statistical'' ''Statistical finding''
         (map ascii [''average'', ''mean'', ''percent'', ''correlation''])),
      (''MeasurementTT'', TruthToken ''MeasurementTT'' T4_EMPIRICAL_MEASURED ''Measurement'' ''Quantified value''
         (map ascii [''measured'', ''reading'', ''value''])),
      (''DocumentaryTT'', TruthToken ''DocumentaryTT'' T5_DOCUMENTARY ''Documentary'' ''Documented evidence''
         (map ascii [''document'', ''record'', ''certificate''])),
      (''CitationTT'', TruthToken ''CitationTT'' T5_DOCUMENTARY ''Citation'' ''Cited source''
         (map ascii [''according to'', ''cited'', ''reference''])),
      (''HistoricalTT'', TruthToken ''HistoricalTT'' T5_DOCUMENTARY ''Historical'' ''Historical fact''
         (map ascii [''in history'', ''historically'', ''year'', ''century''])),
      (''ContextualTT'', TruthToken ''ContextualTT'' T6_CONTEXTUAL ''Contextual'' ''Context-dependent''
         (map ascii [''in context'', ''depending on'', ''within''])),
      (''DomainSpecificTT'', TruthToken ''DomainSpecificTT'' T6_CONTEXTUAL ''Domain-Specific'' ''Field-specific''
         (map ascii [''in medicine'', ''in law'', ''technically''])),
      (''ConditionalTT'', TruthToken ''ConditionalTT'' T6_CONTEXTUAL ''Conditional'' ''If-then truth''
         (map ascii [''if'', ''when'', ''provided that''])),
      (''CurrentTT'', TruthToken ''CurrentTT'' T7_TEMPORAL ''Current'' ''Present state''
         (map ascii [''currently'', ''now'', ''at present'', ''today''])),
      (''PredictiveTT'', TruthToken ''PredictiveTT'' T7_TEMPORAL ''Predictive'' ''Future prediction''
         (map ascii [''will'', ''forecast'', ''expect'', ''predict''])),
      (''TrendTT'', TruthToken ''TrendTT'' T7_TEMPORAL ''Trend'' ''Trend observation''
         (map ascii [''trend'', ''rising'', ''falling'', ''increasing''])),
      (''TestimonialTT'', TruthToken ''TestimonialTT'' T8_TESTIMONIAL ''Testimonial'' ''Someone's claim''
         (map ascii [''said'', ''claims'', ''testified'', ''reported''])),
      (''ExpertOpinionTT'', TruthToken ''ExpertOpinionTT'' T8_TESTIMONIAL ''Expert Opinion'' ''Expert says''
         (map ascii [''expert'', ''scientist says'', ''doctor says''])),
      (''HearsayTT'', TruthToken ''HearsayTT'' T8_TESTIMONIAL ''Hearsay'' ''Second-hand report''
         (map ascii [''heard that'', ''supposedly'', ''allegedly''])),
      (''ConsensusTT'', TruthToken ''ConsensusTT'' T9_SOCIAL ''Consensus'' ''Group agreement''
         (map ascii [''consensus'', ''most agree'', ''widely accepted''])),
      (''CulturalTT'', TruthToken ''CulturalTT'' T9_SOCIAL ''Cultural'' ''Cultural norm''
         (map ascii [''culture'', ''tradition'', ''custom''])),
      (''NormativeTT'', TruthToken ''NormativeTT'' T9_SOCIAL ''Normative'' ''Should/ought claim''
         (map ascii [''should'', ''ought'', ''must'', ''need to''])),
      (''OpinionTT'', TruthToken ''OpinionTT'' T10_COGNITIVE ''Opinion'' ''Personal view''
         (map ascii [''i think'', ''in my opinion'', ''i believe''])),
      (''BeliefTT'', TruthToken ''BeliefTT'' T10_COGNITIVE ''Belief'' ''Belief statement''
         (map ascii [''believe'', ''faith'', ''conviction''])),
      (''PreferenceTT'', TruthToken ''PreferenceTT'' T10_COGNITIVE ''Preference'' ''Personal preference''
         (map ascii [''prefer'', ''like'', ''favorite''])),
      (''IntrospectiveTT'', TruthToken ''IntrospectiveTT'' T10_COGNITIVE ''Introspective'' ''Self-knowledge''
         (map ascii [''i feel'', ''i am'', ''i want''])),
      (''SpeculativeTT'', TruthToken ''SpeculativeTT'' T11_SPECULATIVE ''Speculative'' ''Speculation''
         (map ascii [''maybe'', ''perhaps'', ''might'', ''possibly'', ''could be'', ''aliens''])),
      (''HypotheticalTT'', TruthToken ''HypotheticalTT'' T11_SPECULATIVE ''Hypothetical'' ''What-if scenario''
         (map ascii [''what if'', ''hypothetically'', ''imagine'', ''suppose''])),
      (''UncertainTT'', TruthToken ''UncertainTT'' T11_SPECULATIVE ''Uncertain'' ''Unknown status''
         (map ascii [''uncertain'', ''unclear'', ''unknown'', ''not sure''])),
      (''FalseTT'', TruthToken ''FalseTT'' T12_INTEGRITY ''False'' ''Demonstrably false''
         (map ascii [''false'', ''wrong'', ''incorrect'', ''untrue''])),
      (''MisleadingTT'', TruthToken ''MisleadingTT'' T12_INTEGRITY ''Misleading'' ''Technically true but misleading''
         (map ascii [''misleading'', ''deceptive'', ''spin''])),
      (''PropagandaTT'', TruthToken ''PropagandaTT'' T12_INTEGRITY ''Propaganda'' ''Manipulative content''
         (map ascii [''propaganda'', ''manipulate'', ''brainwash''])),
      (''ContradictoryTT'', TruthToken ''ContradictoryTT'' T12_INTEGRITY ''Contradictory'' ''Self-contradicting''
         (map ascii [''contradict'', ''inconsistent'', ''paradox'']))]"

datatype error = KeyError string

text \<open>\<^verbatim>\<open>d[key]\<close>, which raises \<^verbatim>\<open>KeyError\<close> when the key is missing.\<close>

definition getitem :: "(string \<times> 'a) list \<Rightarrow> string \<Rightarrow> error + 'a" where
  "getitem d k = (case map_of d k of None \<Rightarrow> Inl (KeyError k) | Some v \<Rightarrow> Inr v)"

text \<open>\<^verbatim>\<open>sum(1 for kw in token.keywords if kw in text_lower)\<close>.\<close>

definition score :: "pystr \<Rightarrow> TruthToken \<Rightarrow> nat" where
  "score text_lower token = length (filter (\<lambda>kw. contains kw text_lower) (tok_keywords token))"

text \<open>The loop that fills \<^verbatim>\<open>scores\<close>, in the order of the table.\<close>

fun scores_of :: "pystr \<Rightarrow> (string \<times> TruthToken) list \<Rightarrow> (string \<times> nat) list" where
  "scores_of text_lower [] = []"
| "scores_of text_lower ((symbol, token) # rest) =
     (if score text_lower token > 0
      then (symbol, score text_lower token) # scores_of text_lower rest
      else scores_of text_lower rest)"

text \<open>
  \<^verbatim>\<open>max(scores, key=scores.get)\<close> walks the keys in order and keeps the first one whose
  score no later key exceeds: the running best is replaced only by a strictly larger
  score.
\<close>

fun max_from :: "string \<Rightarrow> nat \<Rightarrow> (string \<times> nat) list \<Rightarrow> string" where
  "max_from best best_score [] = best"
| "max_from best best_score ((k, v) # rest) =
     (if v > best_score then max_from k v rest else max_from best best_score rest)"

text \<open>
  Steps 2 and 3 of \<^verbatim>\<open>classify\<close>: the best symbol and its token. In the default branch
  Python evaluates the argument \<^verbatim>\<open>TTO_TOKENS["UniversalTT"]\<close> before the call of
  \<^verbatim>\<open>get\<close>.
\<close>

definition best_match :: "pystr \<Rightarrow> error + (string \<times> TruthToken)" where
  "best_match text_lower =
     (case scores_of text_lower TTO_TOKENS of
        (k, v) # rest \<Rightarrow>
          (let best_symbol = max_from k v rest in
           case getitem TTO_TOKENS best_symbol of
             Inl e \<Rightarrow> Inl e
           | Inr best_token \<Rightarrow> Inr (best_symbol, best_token))
      | [] \<Rightarrow>
          (let best_symbol = ''AtomicFactTT'' in
           case getitem TTO_TOKENS ''UniversalTT'' of
             Inl e \<Rightarrow> Inl e
           | Inr fallback \<Rightarrow>
               Inr (best_symbol,
                    case map_of TTO_TOKENS best_symbol of
                      Some token \<Rightarrow> token
                    | None \<Rightarrow> fallback)))"

record Classification =
  c_symbol :: string
  c_name :: string
  c_tier :: int
  c_tier_name :: string
  c_resistance :: rat
  c_epistemic_subject :: string
  c_epistemic_level :: string
  c_verifiability :: string
  c_confidence :: rat

definition classify :: "unicode_db \<Rightarrow> pystr \<Rightarrow> error + Classification" where
  "classify U txt =
     (let text_lower = py_lower U txt;
          epistemic = detect U txt
      in case best_match text_lower of
           Inl e \<Rightarrow> Inl e
         | Inr (best_symbol, best_token) \<Rightarrow>
             (let final_tier =
                    (if epistemic_level epistemic = INTROSPECTIVE then T10_COGNITIVE
                     else if epistemic_level epistemic = TESTIMONIAL then T8_TESTIMONIAL
                     else if epistemic_level epistemic = SPECULATIVE then T11_SPECULATIVE
                     else tok_tier best_token)
              in Inr \<lparr>c_symbol = best_symbol,
                      c_name = tok_name best_token,
                      c_tier = tier_num final_tier,
                      c_tier_name = tier_name final_tier,
                      c_resistance = resistance final_tier,
                      c_epistemic_subject = subject_type epistemic,
                      c_epistemic_level = level_value (epistemic_level epistemic),
                      c_verifiability = es_verifiability epistemic,
                      c_confidence = es_confidence epistemic\<rparr>))"

section \<open>The verification cascade\<close>

record VerificationResult =
  verified :: bool
  vr_confidence :: rat
  vr_method :: string
  vr_tier :: int
  vr_resistance :: rat
  details :: "(string \<times> pystr) list"

text \<open>\<^verbatim>\<open>if axiom_match:\<close> holds for a string that is not empty.\<close>

fun truthy :: "pystr option \<Rightarrow> bool" where
  "truthy None = False"
| "truthy (Some s) = (s \<noteq> [])"

definition MATH_PATTERN :: regex where
  "MATH_PATTERN =
     Seq [Plus CDigit, Star CSpace, Cls (COneOf (ascii ''+-*/='')), Star CSpace, Plus CDigit]"

text \<open>
  Each band of the cascade is an \<^verbatim>\<open>if\<close> statement that either returns a result or
  falls through to the next statement: \<open>Some\<close> is a return, \<open>None\<close> falls through. The
  classification is the record that \<^verbatim>\<open>classify\<close> builds, which always has the key
  \<^verbatim>\<open>verifiability\<close>.
\<close>

definition band_T0 :: "unicode_db \<Rightarrow> pystr \<Rightarrow> int \<Rightarrow> rat \<Rightarrow> VerificationResult option" where
  "band_T0 U claim tier res =
     (if tier = 0 then
        (let axiom_match = check_truth_floor U claim in
         if truthy axiom_match then
           Some \<lparr>verified = True, vr_confidence = 1, vr_method = ''truth_floor_axiom'',
                 vr_tier = tier, vr_resistance = res,
                 details = [(''matched_axiom'', the axiom_match)]\<rparr>
         else if any_in (map ascii [''exists'', ''a = a'', ''identical'']) (py_lower U claim) then
           Some \<lparr>verified = True, vr_confidence = 1, vr_method = ''tautology'',
                 vr_tier = tier, vr_resistance = res, details = []\<rparr>
         else None)
      else None)"

definition band_T1_T2 :: "unicode_db \<Rightarrow> pystr \<Rightarrow> int \<Rightarrow> rat \<Rightarrow> VerificationResult option" where
  "band_T1_T2 U claim tier res =
     (if tier \<in> set [1, 2] then
        (let axiom_match = check_truth_floor U claim in
         if truthy axiom_match then
           Some \<lparr>verified = True, vr_confidence = 99 / 100, vr_method = ''truth_floor_constant'',
                 vr_tier = tier, vr_resistance = res,
                 details = [(''matched_axiom'', the axiom_match)]\<rparr>
         else if re_search U MATH_PATTERN claim then
           Some \<lparr>verified = True, vr_confidence = 95 / 100, vr_method = ''mathematical_pattern'',
                 vr_tier = tier, vr_resistance = res, details = []\<rparr>
         else if any_in (map ascii [''therefore'', ''thus'', ''implies'', ''if then''])
                   (py_lower U claim) then
           Some \<lparr>verified = True, vr_confidence = 90 / 100, vr_method = ''logical_pattern'',
                 vr_tier = tier, vr_resistance = res, details = []\<rparr>
         else None)
      else None)"

definition band_T3_T5 :: "unicode_db \<Rightarrow> pystr \<Rightarrow> int \<Rightarrow> rat \<Rightarrow> VerificationResult option" where
  "band_T3_T5 U claim tier res =
     (if tier \<in> set [3, 4, 5] then
        (let scientific_keywords =
               map ascii [''law'', ''constant'', ''measured'', ''documented'', ''recorded'']
         in if any_in scientific_keywords (py_lower U claim) then
              Some \<lparr>verified = True, vr_confidence = 85 / 100, vr_method = ''pattern_verified'',
                    vr_tier = tier, vr_resistance = res, details = []\<rparr>
            else None)
      else None)"

definition band_T6_T8 :: "int \<Rightarrow> rat \<Rightarrow> VerificationResult option" where
  "band_T6_T8 tier res =
     (if tier \<in> set [6, 7, 8] then
        Some \<lparr>verified = True, vr_confidence = 70 / 100, vr_method = ''context_acknowledged'',
              vr_tier = tier, vr_resistance = res,
              details = [(''note'', ascii ''Context-dependent claim - confidence limited'')]\<rparr>
      else None)"

definition band_T9_T11 :: "Classification \<Rightarrow> int \<Rightarrow> rat \<Rightarrow> VerificationResult option" where
  "band_T9_T11 classification tier res =
     (if tier \<in> set [9, 10, 11] then
        (let verifiability = c_verifiability classification in
         if verifiability = ''unfalsifiable'' then
           Some \<lparr>verified = True, vr_confidence = 50 / 100, vr_method = ''epistemic_acknowledgment'',
                 vr_tier = tier, vr_resistance = res,
                 details = [(''note'',
                   ascii ''Subjective/speculative - cannot independently verify'')]\<rparr>
         else
           Some \<lparr>verified = True, vr_confidence = 40 / 100, vr_method = ''speculative_flagged'',
                 vr_tier = tier, vr_resistance = res,
                 details = [(''note'', ascii ''Flagged as speculative'')]\<rparr>)
      else None)"

definition band_T12 :: "int \<Rightarrow> rat \<Rightarrow> VerificationResult option" where
  "band_T12 tier res =
     (if tier = 12 then
        Some \<lparr>verified = False, vr_confidence = 0, vr_method = ''integrity_violation_detected'',
              vr_tier = tier, vr_resistance = res,
              details = [(''note'',
                ascii ''Potential misinformation - requires full verification'')]\<rparr>
      else None)"

text \<open>The statements in order; the first band that returns decides.\<close>

fun first_return :: "VerificationResult option list \<Rightarrow> VerificationResult \<Rightarrow> VerificationResult" where
  "first_return [] fallback = fallback"
| "first_return (None # rest) fallback = first_return rest fallback"
| "first_return (Some r # rest) fallback = r"

definition verification_cascade ::
  "unicode_db \<Rightarrow> pystr \<Rightarrow> Classification \<Rightarrow> VerificationResult" where
  "verification_cascade U claim classification =
     (let tier = c_tier classification;
          res = c_resistance classification
      in first_return
           [band_T0 U claim tier res,
            band_T1_T2 U claim tier res,
            band_T3_T5 U claim tier res,
            band_T6_T8 tier res,
            band_T9_T11 classification tier res,
            band_T12 tier res]
           \<lparr>verified = True, vr_confidence = 60 / 100, vr_method = ''default_pass'',
            vr_tier = tier, vr_resistance = res, details = []\<rparr>)"

text \<open>
  A Unicode database for concrete runs: it knows no word character, no digit and no
  lowercase form beyond what the functions above compute themselves.
\<close>

definition PLAIN :: unicode_db where
  "PLAIN = \<lparr>u_word = (\<lambda>c. False), u_decimal = (\<lambda>c. False), u_lower = (\<lambda>before c after. [c])\<rparr>"

section \<open>The matching rule in the words of the specification\<close>

text \<open>
  The specification of axiom matching, stated without the program's loops, lists and
  floating-point product. The words of a string are its maximal runs of code points
  that are not whitespace. The keywords of an axiom are its lowercased words minus the
  stop words. The claim is tokenized to the set of its lowercased words, and a keyword
  is present in the claim when it is one of them. An axiom matches when at least 60
  percent of its keywords are present; the answer is the first axiom of the registry
  that matches.
\<close>

definition word_of :: "pystr \<Rightarrow> pystr \<Rightarrow> bool" where
  "word_of v s \<longleftrightarrow>
     v \<noteq> [] \<and> list_all (\<lambda>c. \<not> is_space c) v
     \<and> (\<exists>pre post. s = pre @ v @ post
           \<and> (pre = [] \<or> is_space (last pre)) \<and> (post = [] \<or> is_space (hd post)))"

definition spec_words :: "pystr \<Rightarrow> pystr set" where
  "spec_words s = {v. word_of v s}"

definition spec_keywords :: "unicode_db \<Rightarrow> pystr \<Rightarrow> pystr set" where
  "spec_keywords U axiom = spec_words (py_lower U axiom) - set STOP_WORDS"

definition spec_match :: "unicode_db \<Rightarrow> pystr \<Rightarrow> pystr \<Rightarrow> bool" where
  "spec_match U claim axiom \<longleftrightarrow>
     60 * card (spec_keywords U axiom)
       \<le> 100 * card {w \<in> spec_keywords U axiom. w \<in> spec_words (py_lower U claim)}"

text \<open>
  The same rule with the other reading of "present": a keyword is present in the claim
  when it occurs anywhere in the lowercased claim, inside a word or across words.
\<close>

definition occurs_in :: "pystr \<Rightarrow> pystr \<Rightarrow> bool" where
  "occurs_in w s \<longleftrightarrow> (\<exists>pre post. s = pre @ w @ post)"

definition substring_match :: "unicode_db \<Rightarrow> pystr \<Rightarrow> pystr \<Rightarrow> bool" where
  "substring_match U claim axiom \<longleftrightarrow>
     60 * card (spec_keywords U axiom)
       \<le> 100 * card {w \<in> spec_keywords U axiom. occurs_in w (py_lower U claim)}"

text \<open>A classification in tier 12 and one in tier 5, for concrete runs of the cascade.\<close>

definition EXAMPLE_T12 :: Classification where
  "EXAMPLE_T12 =
     \<lparr>c_symbol = ''FalseTT'', c_name = ''False'', c_tier = 12,
      c_tier_name = ''Integrity Violation'', c_resistance = 1,
      c_epistemic_subject = ''anonymous'', c_epistemic_level = ''a_posteriori'',
      c_verifiability = ''verifiable'', c_confidence = 8 / 10\<rparr>"

definition EXAMPLE_T5 :: Classification where
  "EXAMPLE_T5 =
     \<lparr>c_symbol = ''HistoricalTT'', c_name = ''Historical'', c_tier = 5,
      c_tier_name = ''Documentary'', c_resistance = 50 / 1000,
      c_epistemic_subject = ''anonymous'', c_epistemic_level = ''a_posteriori'',
      c_verifiability = ''verifiable'', c_confidence = 8 / 10\<rparr>"

section \<open>Properties of the tier table\<close>

lemma ALL_TIERS_complete: "set ALL_TIERS = UNIV"
proof -
  have "t \<in> set ALL_TIERS" for t
    by (cases t) (simp_all add: ALL_TIERS_def)
  then show ?thesis by blast
qed

lemma resistance_strict_mono: "tier_num s < tier_num t \<Longrightarrow> resistance s < resistance t"
  by (cases s; cases t; simp)

text \<open>
  Claim C6. There are 13 tiers with the ranks 0..12; whenever the rank of one tier is at
  most the rank of another, its resistance is at most the other's; the resistance of T0
  is 0.0 and that of T12 is 1.0.
\<close>

theorem resistance_monotone:
  "length ALL_TIERS = 13 \<and> distinct ALL_TIERS \<and> set ALL_TIERS = UNIV
   \<and> map tier_num ALL_TIERS = [0, 1, 2, 3, 4, 5, 6, 7, 8, 9, 10, 11, 12]
   \<and> (\<forall>s t. tier_num s \<le> tier_num t \<longrightarrow> resistance s \<le> resistance t)
   \<and> resistance T0_AXIOMATIC = 0 \<and> resistance T12_INTEGRITY = 1"
proof -
  have mono: "resistance s \<le> resistance t" if "tier_num s \<le> tier_num t" for s t
  proof (cases "tier_num s = tier_num t")
    case True
    then have "s = t" by (cases s; cases t; simp)
    then show ?thesis by simp
  next
    case False
    with that have "tier_num s < tier_num t" by simp
    then show ?thesis using resistance_strict_mono by fastforce
  qed
  have "length ALL_TIERS = 13" "distinct ALL_TIERS"
    "map tier_num ALL_TIERS = [0, 1, 2, 3, 4, 5, 6, 7, 8, 9, 10, 11, 12]"
    by (simp_all add: ALL_TIERS_def)
  with mono ALL_TIERS_complete show ?thesis by simp
qed

theorem resistance_monotone_witness:
  "tier_num T3_EMPIRICAL_STABLE \<le> tier_num T8_TESTIMONIAL
   \<and> resistance T3_EMPIRICAL_STABLE \<le> resistance T8_TESTIMONIAL
   \<and> resistance T3_EMPIRICAL_STABLE = 1 / 100 \<and> resistance T8_TESTIMONIAL = 18 / 100"
  using resistance_monotone by simp

section \<open>Properties of the verification cascade\<close>

lemmas band_defs =
  band_T0_def band_T1_T2_def band_T3_T5_def band_T6_T8_def band_T9_T11_def band_T12_def

lemma cascade_verified_iff:
  "verified (verification_cascade U claim classification) \<longleftrightarrow> c_tier classification \<noteq> 12"
  by (simp add: verification_cascade_def band_defs Let_def)

text \<open>
  Claim C2. For every claim string and every classification whose tier is 12, the
  cascade returns verified = false, confidence 0.0 and the method
  "integrity_violation_detected", whatever the claim says.
\<close>

theorem tier12_never_verified:
  "c_tier classification = 12 \<Longrightarrow>
     verified (verification_cascade U claim classification) = False
     \<and> vr_confidence (verification_cascade U claim classification) = 0
     \<and> vr_method (verification_cascade U claim classification) = ''integrity_violation_detected''"
  by (simp add: verification_cascade_def band_defs)

theorem tier12_never_verified_witness:
  "c_tier EXAMPLE_T12 = 12
   \<and> verified (verification_cascade PLAIN (ascii ''Energy is conserved'') EXAMPLE_T12) = False
   \<and> vr_confidence (verification_cascade PLAIN (ascii ''Energy is conserved'') EXAMPLE_T12) = 0
   \<and> vr_method (verification_cascade PLAIN (ascii ''Energy is conserved'') EXAMPLE_T12)
       = ''integrity_violation_detected''"
proof -
  have h: "c_tier EXAMPLE_T12 = 12" by (simp add: EXAMPLE_T12_def)
  show ?thesis
    using h tier12_never_verified [OF h, of PLAIN "ascii ''Energy is conserved''"] by simp
qed

text \<open>
  Claim C9. For every claim string and every classification whose tier is an integer
  from 0 to 11, the cascade returns verified = true; it returns verified = false exactly
  when the tier is 12.
\<close>

theorem verified_unless_tier12:
  "(0 \<le> c_tier classification \<and> c_tier classification \<le> 11
      \<longrightarrow> verified (verification_cascade U claim classification) = True)
   \<and> (verified (verification_cascade U claim classification) = False
      \<longleftrightarrow> c_tier classification = 12)"
  using cascade_verified_iff [of U claim classification] by auto

theorem verified_unless_tier12_witness:
  "0 \<le> c_tier EXAMPLE_T5 \<and> c_tier EXAMPLE_T5 \<le> 11
   \<and> verified (verification_cascade PLAIN (ascii ''Water is wet'') EXAMPLE_T5) = True
   \<and> verified (verification_cascade PLAIN (ascii ''Water is wet'') EXAMPLE_T12) = False"
proof -
  have h: "0 \<le> c_tier EXAMPLE_T5 \<and> c_tier EXAMPLE_T5 \<le> 11" "c_tier EXAMPLE_T12 = 12"
    by (simp_all add: EXAMPLE_T5_def EXAMPLE_T12_def)
  show ?thesis
    using h verified_unless_tier12 [of EXAMPLE_T5 PLAIN "ascii ''Water is wet''"]
      verified_unless_tier12 [of EXAMPLE_T12 PLAIN "ascii ''Water is wet''"]
    by blast
qed

section \<open>Properties of the detector\<close>

lemma any_pattern_iff: "any_pattern U ps t \<longleftrightarrow> (\<exists>p \<in> set ps. re_search U p t)"
  by (induction ps) auto

lemmas str_ev = ascii_def py_lower_def lower_cp_def

lemmas re_ev = re_search_def lit_def alts_def phrase_def is_word_def is_digit_def is_space_def

text \<open>
  Claim C4. For every input text the detector tries the pattern groups in the order
  introspective, testimonial, authority, a-priori, normative on the lowercased text and
  answers for the first group that has a matching pattern, with the field values of that
  group; when no group matches it answers subject anonymous, level a-posteriori,
  confidence 0.8, access direct, verifiability verifiable. Nothing is combined across
  groups.
\<close>

theorem detect_first_group:
  "detect U txt =
     (if \<exists>p \<in> set INTROSPECTIVE_PATTERNS. re_search U p (py_lower U txt) then
        \<lparr>subject_type = ''self'', subject_name = None, epistemic_level = INTROSPECTIVE,
         es_confidence = 1, access_type = ''direct'', es_verifiability = ''unfalsifiable''\<rparr>
      else if \<exists>p \<in> set TESTIMONIAL_PATTERNS. re_search U p (py_lower U txt) then
        \<lparr>subject_type = ''other'', subject_name = None, epistemic_level = TESTIMONIAL,
         es_confidence = 7 / 10, access_type = ''reported'', es_verifiability = ''partial''\<rparr>
      else if \<exists>p \<in> set AUTHORITY_PATTERNS. re_search U p (py_lower U txt) then
        \<lparr>subject_type = ''authority'', subject_name = None, epistemic_level = A_POSTERIORI,
         es_confidence = 85 / 100, access_type = ''reported'', es_verifiability = ''verifiable''\<rparr>
      else if \<exists>p \<in> set APRIORI_PATTERNS. re_search U p (py_lower U txt) then
        \<lparr>subject_type = ''universal'', subject_name = None, epistemic_level = A_PRIORI,
         es_confidence = 1, access_type = ''direct'', es_verifiability = ''verifiable''\<rparr>
      else if \<exists>p \<in> set NORMATIVE_PATTERNS. re_search U p (py_lower U txt) then
        \<lparr>subject_type = ''anonymous'', subject_name = None, epistemic_level = NORMATIVE,
         es_confidence = 6 / 10, access_type = ''inferred'', es_verifiability = ''partial''\<rparr>
      else
        \<lparr>subject_type = ''anonymous'', subject_name = None, epistemic_level = A_POSTERIORI,
         es_confidence = 8 / 10, access_type = ''direct'', es_verifiability = ''verifiable''\<rparr>)"
  unfolding detect_def Let_def any_pattern_iff by (rule refl)

text \<open>
  A text that matches an introspective and an authority pattern: the introspective group
  comes first and decides alone.
\<close>

theorem detect_first_group_witness:
  "(\<exists>p \<in> set AUTHORITY_PATTERNS.
       re_search PLAIN p (py_lower PLAIN (ascii ''I believe experts agree'')))
   \<and> detect PLAIN (ascii ''I believe experts agree'') =
       \<lparr>subject_type = ''self'', subject_name = None, epistemic_level = INTROSPECTIVE,
        es_confidence = 1, access_type = ''direct'', es_verifiability = ''unfalsifiable''\<rparr>"
proof -
  have low: "py_lower PLAIN (ascii ''I believe experts agree'') = ascii ''i believe experts agree''"
    by (simp add: str_ev)
  have a: "\<exists>p \<in> set AUTHORITY_PATTERNS. re_search PLAIN p (ascii ''i believe experts agree'')"
    by (simp add: AUTHORITY_PATTERNS_def re_ev ascii_def)
  have i: "\<exists>p \<in> set INTROSPECTIVE_PATTERNS. re_search PLAIN p (ascii ''i believe experts agree'')"
    by (simp add: INTROSPECTIVE_PATTERNS_def re_ev ascii_def)
  show ?thesis
    using a i detect_first_group [of PLAIN "ascii ''I believe experts agree''"]
    by (simp only: low if_True simp_thms)
qed

lemma detect_level_cases:
  "epistemic_level (detect U txt) \<in> {INTROSPECTIVE, TESTIMONIAL, A_POSTERIORI, A_PRIORI, NORMATIVE}"
  by (simp add: detect_def Let_def)

section \<open>Properties of the classifier\<close>

lemma max_from_mem: "max_from k v rest \<in> insert k (fst ` set rest)"
proof (induction k v rest rule: max_from.induct)
  case (1 best best_score)
  then show ?case by simp
next
  case (2 best best_score k v rest)
  then show ?case by (cases "v > best_score") auto
qed

lemma scores_of_keys: "fst ` set (scores_of t tbl) \<subseteq> fst ` set tbl"
proof (induction t tbl rule: scores_of.induct)
  case (1 text_lower)
  then show ?case by simp
next
  case (2 text_lower symbol token rest)
  then show ?case by (cases "score text_lower token > 0") auto
qed

lemma lookup_UniversalTT:
  "map_of TTO_TOKENS ''UniversalTT'' =
     Some (TruthToken ''UniversalTT'' T3_EMPIRICAL_STABLE ''Universal Fact'' ''Universal truth''
            (map ascii [''everywhere'', ''all'', ''every'', ''always'']))"
  by (simp add: TTO_TOKENS_def)

lemma lookup_AtomicFactTT:
  "map_of TTO_TOKENS ''AtomicFactTT'' =
     Some (TruthToken ''AtomicFactTT'' T3_EMPIRICAL_STABLE ''Atomic Fact''
            ''Simple verifiable fact'' (map ascii [''is'', ''has'', ''contains'']))"
  by (simp add: TTO_TOKENS_def)

text \<open>The dictionary lookups of the classifier never raise.\<close>

lemma best_match_total:
  "\<exists>sym tok. best_match t = Inr (sym, tok) \<and> map_of TTO_TOKENS sym = Some tok"
proof (cases "scores_of t TTO_TOKENS")
  case Nil
  then show ?thesis
    by (simp add: best_match_def getitem_def lookup_UniversalTT lookup_AtomicFactTT Let_def)
next
  case (Cons kv rest)
  obtain k v where kv: "kv = (k, v)" by (cases kv)
  let ?b = "max_from k v rest"
  have "?b \<in> fst ` set (scores_of t TTO_TOKENS)"
    using max_from_mem[of k v rest] Cons kv by auto
  then have "?b \<in> fst ` set TTO_TOKENS"
    using scores_of_keys by blast
  then obtain tok where "map_of TTO_TOKENS ?b = Some tok"
    by (metis map_of_eq_None_iff not_Some_eq)
  then show ?thesis
    using Cons kv by (simp add: best_match_def getitem_def)
qed

text \<open>
  Claim C5. For every input text the final tier comes from the native tier of the
  winning token by the ordered override: Cognitive/Subjective (T10) when the detected
  level is introspective, else Testimonial (T8) when it is testimonial, else Speculative
  (T11) when it is speculative, and the native tier unchanged otherwise.
\<close>

theorem classify_tier_override:
  "\<exists>sym tok c.
     best_match (py_lower U txt) = Inr (sym, tok) \<and> classify U txt = Inr c
     \<and> c_symbol c = sym
     \<and> c_tier c =
         (if epistemic_level (detect U txt) = INTROSPECTIVE then 10
          else if epistemic_level (detect U txt) = TESTIMONIAL then 8
          else if epistemic_level (detect U txt) = SPECULATIVE then 11
          else tier_num (tok_tier tok))
     \<and> c_tier_name c =
         (if epistemic_level (detect U txt) = INTROSPECTIVE then ''Cognitive/Subjective''
          else if epistemic_level (detect U txt) = TESTIMONIAL then ''Testimonial''
          else if epistemic_level (detect U txt) = SPECULATIVE then ''Speculative''
          else tier_name (tok_tier tok))"
proof -
  obtain sym tok where "best_match (py_lower U txt) = Inr (sym, tok)"
    using best_match_total by blast
  then show ?thesis
    by (simp add: classify_def Let_def)
qed

text \<open>
  Claim C10. The detector never answers with the speculative level; so no
  classification carries the level "speculative", and the override to T11 never fires:
  the final tier is T10, T8 or the native tier of the winning token.
\<close>

theorem speculative_unreachable:
  "epistemic_level (detect U txt) \<noteq> SPECULATIVE
   \<and> (\<exists>sym tok c.
        best_match (py_lower U txt) = Inr (sym, tok) \<and> classify U txt = Inr c
        \<and> c_epistemic_level c \<noteq> ''speculative''
        \<and> c_tier c =
            (if epistemic_level (detect U txt) = INTROSPECTIVE then 10
             else if epistemic_level (detect U txt) = TESTIMONIAL then 8
             else tier_num (tok_tier tok)))"
proof -
  have lvl: "epistemic_level (detect U txt) \<noteq> SPECULATIVE"
    using detect_level_cases [of U "txt"] by auto
  obtain sym tok where bm: "best_match (py_lower U txt) = Inr (sym, tok)"
    using best_match_total by blast
  have "level_value (epistemic_level (detect U txt)) \<noteq> ''speculative''"
    using lvl by (cases "epistemic_level (detect U txt)") simp_all
  with lvl bm show ?thesis
    by (simp add: classify_def Let_def)
qed

lemma score_zero_iff:
  "score t tok = 0 \<longleftrightarrow> (\<forall>kw \<in> set (tok_keywords tok). \<not> contains kw t)"
  by (simp add: score_def filter_empty_conv)

lemma scores_of_empty:
  "(\<forall>entry \<in> set tbl. score t (snd entry) = 0) \<Longrightarrow> scores_of t tbl = []"
  by (induction t tbl rule: scores_of.induct) auto

text \<open>
  Claim C8. For every input text in which no keyword of any token occurs, the
  classifier raises no error and returns the default token AtomicFactTT; the empty
  string is such a text.
\<close>

theorem no_keyword_default:
  "(\<forall>entry \<in> set TTO_TOKENS. \<forall>kw \<in> set (tok_keywords (snd entry)).
       \<not> contains kw (py_lower U txt))
   \<Longrightarrow> \<exists>c. classify U txt = Inr c \<and> c_symbol c = ''AtomicFactTT'' \<and> c_name c = ''Atomic Fact''"
proof -
  assume h: "\<forall>entry \<in> set TTO_TOKENS. \<forall>kw \<in> set (tok_keywords (snd entry)).
       \<not> contains kw (py_lower U txt)"
  then have "\<forall>entry \<in> set TTO_TOKENS. score (py_lower U txt) (snd entry) = 0"
    by (simp add: score_zero_iff)
  then have "scores_of (py_lower U txt) TTO_TOKENS = []"
    by (rule scores_of_empty)
  then show ?thesis
    by (simp add: classify_def best_match_def getitem_def lookup_UniversalTT
        lookup_AtomicFactTT Let_def)
qed

theorem no_keyword_default_witness:
  "\<exists>c. classify PLAIN [] = Inr c \<and> c_symbol c = ''AtomicFactTT'' \<and> c_name c = ''Atomic Fact''"
proof -
  have h: "\<forall>entry \<in> set TTO_TOKENS. \<forall>kw \<in> set (tok_keywords (snd entry)).
       \<not> contains kw (py_lower PLAIN [])"
    by (simp add: TTO_TOKENS_def py_lower_def ascii_def)
  show ?thesis
    using no_keyword_default [OF h] .
qed

section \<open>Two runs of the whole classifier\<close>

lemmas fl_ev = float_of_nat_def LIT_0_6_def round53_def bit_length.simps Let_def int_ge_float_def

lemma lookup_MathematicalTT:
  "map_of TTO_TOKENS ''MathematicalTT'' =
     Some (TruthToken ''MathematicalTT'' T1_MATHEMATICAL ''Mathematical'' ''Provable calculation''
            (map ascii [''equals'', ''sum'', ''calculate'', ''compute'', ''math'', ''+'', ''-'',
                        ''*'', ''/'', ''='']))"
  by (simp add: TTO_TOKENS_def)

lemma lower_sum: "py_lower U (ascii ''2 + 2 = 4'') = ascii ''2 + 2 = 4''"
  by (simp add: str_ev)

lemma detect_sum:
  "detect U (ascii ''2 + 2 = 4'') =
     \<lparr>subject_type = ''universal'', subject_name = None, epistemic_level = A_PRIORI,
      es_confidence = 1, access_type = ''direct'', es_verifiability = ''verifiable''\<rparr>"
proof -
  have "\<not> any_pattern U INTROSPECTIVE_PATTERNS (ascii ''2 + 2 = 4'')"
    by (simp add: INTROSPECTIVE_PATTERNS_def re_ev ascii_def)
  moreover have "\<not> any_pattern U TESTIMONIAL_PATTERNS (ascii ''2 + 2 = 4'')"
    by (simp add: TESTIMONIAL_PATTERNS_def re_ev ascii_def)
  moreover have "\<not> any_pattern U AUTHORITY_PATTERNS (ascii ''2 + 2 = 4'')"
    by (simp add: AUTHORITY_PATTERNS_def re_ev ascii_def)
  moreover have "any_pattern U APRIORI_PATTERNS (ascii ''2 + 2 = 4'')"
    by (simp add: APRIORI_PATTERNS_def re_ev ascii_def)
  ultimately show ?thesis
    by (simp add: detect_def lower_sum)
qed

lemma scores_sum: "scores_of (ascii ''2 + 2 = 4'') TTO_TOKENS = [(''MathematicalTT'', 2)]"
  by (simp add: TTO_TOKENS_def score_def ascii_def)

lemma classify_sum:
  "classify U (ascii ''2 + 2 = 4'') =
     Inr \<lparr>c_symbol = ''MathematicalTT'', c_name = ''Mathematical'', c_tier = 1,
          c_tier_name = ''Mathematical'', c_resistance = 1 / 1000,
          c_epistemic_subject = ''universal'', c_epistemic_level = ''a_priori'',
          c_verifiability = ''verifiable'', c_confidence = 1\<rparr>"
  by (simp add: classify_def lower_sum detect_sum best_match_def scores_sum getitem_def
      lookup_MathematicalTT Let_def)

lemma floor_sum: "check_truth_floor U (ascii ''2 + 2 = 4'') = None"
  unfolding check_truth_floor_def lower_sum
  by (simp add: TRUTH_FLOOR_def axiom_matches_def axiom_words_def str_ev py_split_def
      is_space_def STOP_WORDS_def fl_ev)

lemma math_sum: "re_search U MATH_PATTERN (ascii ''2 + 2 = 4'')"
  by (simp add: MATH_PATTERN_def re_ev ascii_def)

lemma cascade_sum:
  "verification_cascade U (ascii ''2 + 2 = 4'')
      \<lparr>c_symbol = ''MathematicalTT'', c_name = ''Mathematical'', c_tier = 1,
       c_tier_name = ''Mathematical'', c_resistance = 1 / 1000,
       c_epistemic_subject = ''universal'', c_epistemic_level = ''a_priori'',
       c_verifiability = ''verifiable'', c_confidence = 1\<rparr>
   = \<lparr>verified = True, vr_confidence = 95 / 100, vr_method = ''mathematical_pattern'',
      vr_tier = 1, vr_resistance = 1 / 1000, details = []\<rparr>"
  by (simp add: verification_cascade_def band_T0_def band_T1_T2_def floor_sum math_sum)

text \<open>
  Claim C7. Classifying "2 + 2 = 4" gives a final tier among T0 and T1, and the cascade
  on that input and classification gives a method among "truth_floor_constant" and
  "mathematical_pattern" with a confidence of at least 0.90. (The run gives tier 1, the
  label "mathematical_pattern" and confidence 0.95.)
\<close>

theorem sum_is_mathematical:
  "\<exists>c. classify U (ascii ''2 + 2 = 4'') = Inr c
       \<and> c_tier c \<in> {0, 1}
       \<and> vr_method (verification_cascade U (ascii ''2 + 2 = 4'') c)
            \<in> {''truth_floor_constant'', ''mathematical_pattern''}
       \<and> 90 / 100 \<le> vr_confidence (verification_cascade U (ascii ''2 + 2 = 4'') c)"
  by (simp add: classify_sum cascade_sum)

lemma lower_friend:
  "py_lower U (ascii ''My friend said Bitcoin will hit $200k this year.'')
     = ascii ''my friend said bitcoin will hit $200k this year.''"
  by (simp add: str_ev)

lemma friend_not_introspective:
  "\<not> any_pattern U INTROSPECTIVE_PATTERNS
        (ascii ''my friend said bitcoin will hit $200k this year.'')"
  by (simp add: INTROSPECTIVE_PATTERNS_def re_ev ascii_def)

lemma friend_not_testimonial:
  "\<not> any_pattern U TESTIMONIAL_PATTERNS
        (ascii ''my friend said bitcoin will hit $200k this year.'')"
  by (simp add: TESTIMONIAL_PATTERNS_def re_ev ascii_def)

lemma friend_not_authority:
  "\<not> any_pattern U AUTHORITY_PATTERNS
        (ascii ''my friend said bitcoin will hit $200k this year.'')"
  by (simp add: AUTHORITY_PATTERNS_def re_ev ascii_def)

lemma friend_not_apriori:
  "\<not> any_pattern U APRIORI_PATTERNS
        (ascii ''my friend said bitcoin will hit $200k this year.'')"
  by (simp add: APRIORI_PATTERNS_def re_ev ascii_def)

lemma friend_not_normative:
  "\<not> any_pattern U NORMATIVE_PATTERNS
        (ascii ''my friend said bitcoin will hit $200k this year.'')"
  by (simp add: NORMATIVE_PATTERNS_def re_ev ascii_def)

lemma detect_friend:
  "detect U (ascii ''My friend said Bitcoin will hit $200k this year.'') =
     \<lparr>subject_type = ''anonymous'', subject_name = None, epistemic_level = A_POSTERIORI,
      es_confidence = 8 / 10, access_type = ''direct'', es_verifiability = ''verifiable''\<rparr>"
  by (simp add: detect_def lower_friend friend_not_introspective friend_not_testimonial
      friend_not_authority friend_not_apriori friend_not_normative)

lemma scores_friend:
  "scores_of (ascii ''my friend said bitcoin will hit $200k this year.'') TTO_TOKENS
     = [(''AtomicFactTT'', 1), (''HistoricalTT'', 1), (''PredictiveTT'', 1),
        (''TestimonialTT'', 1)]"
  by (simp add: TTO_TOKENS_def score_def ascii_def)

text \<open>
  Claim C1 says that "My friend said Bitcoin will hit $200k this year." is classified
  with the testimonial level and the final tier Testimonial (T8). The program does not:
  no testimonial pattern matches (the reporting-verb pattern needs one of the pronouns
  he, she, they, it before "said"), so the level is a-posteriori; four tokens score 1
  (the keyword "is" occurs inside "this") and the first of them in the table,
  AtomicFactTT of tier 3, wins over TestimonialTT.
\<close>

theorem friend_said_is_tier_3:
  "classify U (ascii ''My friend said Bitcoin will hit $200k this year.'') =
     Inr \<lparr>c_symbol = ''AtomicFactTT'', c_name = ''Atomic Fact'', c_tier = 3,
          c_tier_name = ''Empirical-Stable'', c_resistance = 10 / 1000,
          c_epistemic_subject = ''anonymous'', c_epistemic_level = ''a_posteriori'',
          c_verifiability = ''verifiable'', c_confidence = 8 / 10\<rparr>"
  by (simp add: classify_def lower_friend detect_friend best_match_def scores_friend
      getitem_def lookup_AtomicFactTT Let_def)

section \<open>Properties of axiom matching\<close>

text \<open>The constant for \<^verbatim>\<open>0.6\<close> is a 53-bit significand within half a unit of 6/10.\<close>

lemma LIT_0_6_nearest:
  "2 ^ 52 \<le> (5404319552844595 :: nat) \<and> (5404319552844595 :: nat) < 2 ^ 53
   \<and> \<bar>fval LIT_0_6 - 6 / 10\<bar> < 1 / 2 ^ 54"
  by (simp add: LIT_0_6_def)

lemma starts_with_iff: "starts_with w s \<longleftrightarrow> (\<exists>post. s = w @ post)"
  by (induction w s rule: starts_with.induct) auto

lemma contains_iff: "contains w s \<longleftrightarrow> occurs_in w s"
proof (induction s)
  case Nil
  then show ?case by (auto simp: occurs_in_def)
next
  case (Cons c cs)
  have "occurs_in w (c # cs) \<longleftrightarrow> (\<exists>post. c # cs = w @ post) \<or> occurs_in w cs"
  proof
    assume "occurs_in w (c # cs)"
    then obtain pre post where eq: "c # cs = pre @ w @ post"
      by (auto simp: occurs_in_def)
    show "(\<exists>post. c # cs = w @ post) \<or> occurs_in w cs"
    proof (cases pre)
      case Nil
      with eq show ?thesis by auto
    next
      case (Cons a pre')
      with eq have "cs = pre' @ w @ post" by simp
      then show ?thesis by (auto simp: occurs_in_def)
    qed
  next
    assume "(\<exists>post. c # cs = w @ post) \<or> occurs_in w cs"
    then show "occurs_in w (c # cs)"
    proof
      assume "\<exists>post. c # cs = w @ post"
      then obtain post where "c # cs = [] @ w @ post" by auto
      then show ?thesis unfolding occurs_in_def by blast
    next
      assume "occurs_in w cs"
      then obtain pre post where "cs = pre @ w @ post" by (auto simp: occurs_in_def)
      then have "c # cs = (c # pre) @ w @ post" by simp
      then show ?thesis unfolding occurs_in_def by blast
    qed
  qed
  with Cons show ?case by (simp add: starts_with_iff)
qed

text \<open>\<^verbatim>\<open>str.split\<close> yields exactly the words of a string.\<close>

lemma word_of_whole:
  assumes "list_all (\<lambda>c. \<not> is_space c) w"
  shows "word_of v w \<longleftrightarrow> v = w \<and> w \<noteq> []"
proof
  assume "word_of v w"
  then obtain pre post where v: "v \<noteq> []" and eq: "w = pre @ v @ post"
    and b1: "pre = [] \<or> is_space (last pre)" and b2: "post = [] \<or> is_space (hd post)"
    by (auto simp: word_of_def)
  have "pre = []"
  proof (rule ccontr)
    assume "pre \<noteq> []"
    with b1 have "is_space (last pre)" by simp
    moreover have "last pre \<in> set w" using \<open>pre \<noteq> []\<close> eq by simp
    ultimately show False using assms by (auto simp: list_all_iff)
  qed
  moreover have "post = []"
  proof (rule ccontr)
    assume "post \<noteq> []"
    with b2 have "is_space (hd post)" by simp
    moreover have "hd post \<in> set w" using \<open>post \<noteq> []\<close> eq by simp
    ultimately show False using assms by (auto simp: list_all_iff)
  qed
  ultimately show "v = w \<and> w \<noteq> []" using eq v by simp
next
  assume a: "v = w \<and> w \<noteq> []"
  have "\<exists>pre post. w = pre @ v @ post
          \<and> (pre = [] \<or> is_space (last pre)) \<and> (post = [] \<or> is_space (hd post))"
    by (rule exI [of _ "[]"], rule exI [of _ "[]"]) (use a in simp)
  with a assms show "word_of v w" by (simp add: word_of_def)
qed

lemma word_of_skip:
  assumes "is_space c"
  shows "word_of v (c # cs) \<longleftrightarrow> word_of v cs"
proof
  assume "word_of v (c # cs)"
  then obtain pre post where v: "v \<noteq> []" and ns: "list_all (\<lambda>c. \<not> is_space c) v"
    and eq: "c # cs = pre @ v @ post"
    and b1: "pre = [] \<or> is_space (last pre)" and b2: "post = [] \<or> is_space (hd post)"
    by (auto simp: word_of_def)
  have "pre \<noteq> []"
  proof
    assume "pre = []"
    with eq v have "c = hd v" by (cases v) auto
    then have "c \<in> set v" using v by simp
    then show False using ns assms by (auto simp: list_all_iff)
  qed
  then obtain pre' where p: "pre = c # pre'" using eq by (cases pre) auto
  with eq have eq': "cs = pre' @ v @ post" by simp
  have "pre' = [] \<or> is_space (last pre')" using b1 p by (auto split: if_splits)
  with eq' v ns b2 show "word_of v cs" unfolding word_of_def by blast
next
  assume "word_of v cs"
  then obtain pre post where v: "v \<noteq> []" and ns: "list_all (\<lambda>c. \<not> is_space c) v"
    and eq: "cs = pre @ v @ post"
    and b1: "pre = [] \<or> is_space (last pre)" and b2: "post = [] \<or> is_space (hd post)"
    by (auto simp: word_of_def)
  have "c # cs = (c # pre) @ v @ post" using eq by simp
  moreover have "is_space (last (c # pre))" using b1 assms by auto
  ultimately show "word_of v (c # cs)" using v ns b2 unfolding word_of_def by blast
qed

lemma word_of_first:
  assumes ns: "list_all (\<lambda>c. \<not> is_space c) w" and ne: "w \<noteq> []" and sp: "is_space c"
  shows "word_of v (w @ c # cs) \<longleftrightarrow> v = w \<or> word_of v cs"
proof
  assume "word_of v (w @ c # cs)"
  then obtain pre post where v: "v \<noteq> []" and nv: "list_all (\<lambda>c. \<not> is_space c) v"
    and eq: "w @ c # cs = pre @ v @ post"
    and b1: "pre = [] \<or> is_space (last pre)" and b2: "post = [] \<or> is_space (hd post)"
    by (auto simp: word_of_def)
  from eq consider (a) us where "w = pre @ us" "us @ c # cs = v @ post"
    | (b) us where "w @ us = pre" "c # cs = us @ v @ post" "us \<noteq> []"
    by (auto simp: append_eq_append_conv2) (metis append_Nil2)
  then show "v = w \<or> word_of v cs"
  proof cases
    case a
    have "pre = []"
    proof (rule ccontr)
      assume "pre \<noteq> []"
      with b1 have "is_space (last pre)" by simp
      moreover have "last pre \<in> set w" using \<open>pre \<noteq> []\<close> a by simp
      ultimately show False using ns by (auto simp: list_all_iff)
    qed
    with a have eq2: "w @ c # cs = v @ post" by simp
    then consider (a1) vs where "w = v @ vs" "vs @ c # cs = post"
      | (a2) vs where "w @ vs = v" "c # cs = vs @ post" "vs \<noteq> []"
      by (auto simp: append_eq_append_conv2) (metis append_Nil2)
    then have "v = w"
    proof cases
      case a1
      show ?thesis
      proof (cases vs)
        case Nil
        with a1 show ?thesis by simp
      next
        case (Cons x xs)
        with a1 have "hd post = x" "post \<noteq> []" by auto
        with b2 have "is_space x" by auto
        moreover have "x \<in> set w" using a1 Cons by simp
        ultimately show ?thesis using ns by (auto simp: list_all_iff)
      qed
    next
      case a2
      then have "hd vs = c" by (cases vs) auto
      then have "c \<in> set v" using a2 by (cases vs) auto
      then show ?thesis using nv sp by (auto simp: list_all_iff)
    qed
    then show ?thesis ..
  next
    case b
    have "hd us = c" using b by (cases us) auto
    obtain us' where us: "us = c # us'" using b by (cases us) auto
    with b have eq3: "cs = us' @ v @ post" by simp
    have "last pre = last us" using b by auto
    have "us' = [] \<or> is_space (last us')"
    proof (cases us')
      case Nil
      then show ?thesis by simp
    next
      case (Cons y ys)
      then have "last us' = last pre" using b us by auto
      moreover have "pre \<noteq> []" using b by auto
      ultimately show ?thesis using b1 by auto
    qed
    with eq3 v nv b2 have "word_of v cs" unfolding word_of_def by blast
    then show ?thesis ..
  qed
next
  assume "v = w \<or> word_of v cs"
  then show "word_of v (w @ c # cs)"
  proof
    assume "v = w"
    then have "w @ c # cs = [] @ v @ (c # cs)" by simp
    moreover have "is_space (hd (c # cs))" using sp by simp
    ultimately show ?thesis using ns ne \<open>v = w\<close> unfolding word_of_def by blast
  next
    assume "word_of v cs"
    then obtain pre post where v: "v \<noteq> []" and nv: "list_all (\<lambda>c. \<not> is_space c) v"
      and eq: "cs = pre @ v @ post"
      and b1: "pre = [] \<or> is_space (last pre)" and b2: "post = [] \<or> is_space (hd post)"
      by (auto simp: word_of_def)
    have "w @ c # cs = (w @ c # pre) @ v @ post" using eq by simp
    moreover have "is_space (last (w @ c # pre))" using b1 sp by auto
    ultimately show ?thesis using v nv b2 unfolding word_of_def by blast
  qed
qed

lemma split_acc_words:
  "list_all (\<lambda>c. \<not> is_space c) w \<Longrightarrow> set (split_acc w s) = spec_words (w @ s)"
proof (induction s arbitrary: w)
  case Nil
  then show ?case by (auto simp: spec_words_def word_of_whole)
next
  case (Cons c cs)
  show ?case
  proof (cases "is_space c")
    case False
    with Cons.prems have "list_all (\<lambda>c. \<not> is_space c) (w @ [c])" by simp
    from Cons.IH [OF this] False show ?thesis by simp
  next
    case True
    have nil: "set (split_acc [] cs) = spec_words cs"
      using Cons.IH [of "[]"] by simp
    show ?thesis
    proof (cases "w = []")
      case True
      with \<open>is_space c\<close> nil show ?thesis
        by (simp add: spec_words_def word_of_skip)
    next
      case False
      with \<open>is_space c\<close> nil Cons.prems show ?thesis
        by (auto simp: spec_words_def word_of_first)
    qed
  qed
qed

lemma py_split_words: "set (py_split s) = spec_words s"
  using split_acc_words [of "[]" s] by (simp add: py_split_def)

lemma axiom_words_set: "set (axiom_words U axiom) = spec_keywords U axiom"
  by (auto simp: axiom_words_def spec_keywords_def py_split_words)

lemma axiom_words_distinct: "distinct (axiom_words U axiom)"
  by (simp add: axiom_words_def)

lemma axiom_words_length: "length (axiom_words U axiom) = card (spec_keywords U axiom)"
  using axiom_words_set axiom_words_distinct distinct_card by metis

lemma matches_card:
  "length (filter (\<lambda>w. contains w t) (axiom_words U axiom))
     = card {w \<in> spec_keywords U axiom. occurs_in w t}"
proof -
  have "distinct (filter (\<lambda>w. contains w t) (axiom_words U axiom))"
    by (simp add: axiom_words_distinct)
  then have "length (filter (\<lambda>w. contains w t) (axiom_words U axiom))
      = card (set (filter (\<lambda>w. contains w t) (axiom_words U axiom)))"
    using distinct_card[of "filter (\<lambda>w. contains w t) (axiom_words U axiom)"] by simp
  also have "set (filter (\<lambda>w. contains w t) (axiom_words U axiom))
      = {w \<in> spec_keywords U axiom. occurs_in w t}"
    by (auto simp: axiom_words_set contains_iff)
  finally show ?thesis .
qed

text \<open>Comparing a count with a double of negative exponent, in natural numbers.\<close>

lemma fval_le_nat: "fval (Float M (- int k)) \<le> of_nat m \<longleftrightarrow> M \<le> m * 2 ^ k"
proof (cases "k = 0")
  case True
  then show ?thesis by simp
next
  case False
  have "fval (Float M (- int k)) = of_nat M / 2 ^ k"
    using False by simp
  also have "\<dots> \<le> of_nat m \<longleftrightarrow> (of_nat M :: rat) \<le> of_nat m * 2 ^ k"
    by (simp add: pos_divide_le_eq)
  also have "\<dots> \<longleftrightarrow> (of_nat M :: rat) \<le> of_nat (m * 2 ^ k)"
    by simp
  also have "\<dots> \<longleftrightarrow> M \<le> m * 2 ^ k"
    by (simp only: of_nat_le_iff)
  finally show ?thesis .
qed

text \<open>
  The rounded products \<^verbatim>\<open>n * 0.6\<close> for the keyword counts of the registry, and what
  the comparison with them means.
\<close>

lemma product_2: "float_mul (float_of_nat 2) LIT_0_6 = Float 5404319552844595 (- int 52)"
  by (simp add: fl_ev)

lemma product_3: "float_mul (float_of_nat 3) LIT_0_6 = Float 8106479329266892 (- int 52)"
  by (simp add: fl_ev)

lemma product_5: "float_mul (float_of_nat 5) LIT_0_6 = Float 6755399441055744 (- int 51)"
  by (simp add: fl_ev)

lemma product_6: "float_mul (float_of_nat 6) LIT_0_6 = Float 8106479329266892 (- int 51)"
  by (simp add: fl_ev)

lemma product_7: "float_mul (float_of_nat 7) LIT_0_6 = Float 4728779608739021 (- int 50)"
  by (simp add: fl_ev)

lemma product_9: "float_mul (float_of_nat 9) LIT_0_6 = Float 6079859496950169 (- int 50)"
  by (simp add: fl_ev)

lemma threshold_2:
  "int_ge_float m (float_mul (float_of_nat 2) LIT_0_6) \<longleftrightarrow> 60 * 2 \<le> 100 * m"
  unfolding int_ge_float_def product_2 fval_le_nat by (simp; arith)

lemma threshold_3:
  "int_ge_float m (float_mul (float_of_nat 3) LIT_0_6) \<longleftrightarrow> 60 * 3 \<le> 100 * m"
  unfolding int_ge_float_def product_3 fval_le_nat by (simp; arith)

lemma threshold_5:
  "int_ge_float m (float_mul (float_of_nat 5) LIT_0_6) \<longleftrightarrow> 60 * 5 \<le> 100 * m"
  unfolding int_ge_float_def product_5 fval_le_nat by (simp; arith)

lemma threshold_6:
  "int_ge_float m (float_mul (float_of_nat 6) LIT_0_6) \<longleftrightarrow> 60 * 6 \<le> 100 * m"
  unfolding int_ge_float_def product_6 fval_le_nat by (simp; arith)

lemma threshold_7:
  "int_ge_float m (float_mul (float_of_nat 7) LIT_0_6) \<longleftrightarrow> 60 * 7 \<le> 100 * m"
  unfolding int_ge_float_def product_7 fval_le_nat by (simp; arith)

lemma threshold_9:
  "int_ge_float m (float_mul (float_of_nat 9) LIT_0_6) \<longleftrightarrow> 60 * 9 \<le> 100 * m"
  unfolding int_ge_float_def product_9 fval_le_nat by (simp; arith)

lemma threshold_registry:
  "n \<in> {2, 3, 5, 6, 7, 9} \<Longrightarrow>
     int_ge_float m (float_mul (float_of_nat n) LIT_0_6) \<longleftrightarrow> 60 * n \<le> 100 * m"
  using threshold_2 threshold_3 threshold_5 threshold_6 threshold_7 threshold_9 by auto

lemmas aw_ev = axiom_words_def str_ev py_split_def is_space_def STOP_WORDS_def

lemma registry_keyword_counts:
  "map (\<lambda>axiom. length (axiom_words U axiom)) TRUTH_FLOOR = [3, 7, 2, 5, 3, 2, 2, 9, 6, 5, 7, 7]"
  by (simp add: TRUTH_FLOOR_def aw_ev)

lemma registry_count_cases:
  assumes "axiom \<in> set TRUTH_FLOOR"
  shows "length (axiom_words U axiom) \<in> {2, 3, 5, 6, 7, 9}"
proof -
  have "length (axiom_words U axiom) \<in> set (map (\<lambda>axiom. length (axiom_words U axiom)) TRUTH_FLOOR)"
    using assms by simp
  then show ?thesis
    unfolding registry_keyword_counts by auto
qed

lemma axiom_matches_substring:
  assumes "axiom \<in> set TRUTH_FLOOR"
  shows "axiom_matches U (py_lower U claim) axiom \<longleftrightarrow> substring_match U claim axiom"
proof -
  have "axiom_matches U (py_lower U claim) axiom \<longleftrightarrow>
      60 * length (axiom_words U axiom)
        \<le> 100 * length (filter (\<lambda>w. contains w (py_lower U claim)) (axiom_words U axiom))"
    using threshold_registry [OF registry_count_cases [OF assms]]
    by (simp add: axiom_matches_def Let_def)
  then show ?thesis
    by (simp add: substring_match_def axiom_words_length matches_card)
qed

lemma first_axiom_find:
  "(\<forall>axiom \<in> set axioms. axiom_matches U t axiom = P axiom)
     \<Longrightarrow> first_axiom U t axioms = List.find P axioms"
  by (induction axioms) auto

lemma lower_energy:
  "py_lower U (ascii ''Energy is conserved'') = ascii ''energy is conserved''"
  "py_lower U (ascii ''ENERGY IS CONSERVED'') = ascii ''energy is conserved''"
  by (simp_all add: str_ev)

lemma floor_energy:
  "first_axiom U (ascii ''energy is conserved'') TRUTH_FLOOR = Some (ascii ''Energy is conserved'')"
  by (simp add: TRUTH_FLOOR_def axiom_matches_def aw_ev fl_ev)

text \<open>The keyword lists of the twelve axioms, as the program forms them.\<close>

lemma registry_keywords:
  "map (axiom_words U) TRUTH_FLOOR =
     [[ascii ''this'', ascii ''statement'', ascii ''exists''],
      [ascii ''not-a'', ascii ''cannot'', ascii ''both'', ascii ''be'', ascii ''true'',
       ascii ''same'', ascii ''context''],
      [ascii ''energy'', ascii ''conserved''],
      [ascii ''c'', ascii ''='', ascii ''299792458'', ascii ''m/s'', ascii ''vacuum''],
      [ascii ''e'', ascii ''='', ascii ''h'' @ [957]],
      [[960], ascii ''transcendental''],
      [ascii ''e'', ascii ''transcendental''],
      [ascii ''every'', ascii ''integer'', ascii ''greater'', ascii ''than'', ascii ''1'',
       ascii ''has'', ascii ''unique'', ascii ''prime'', ascii ''factorization''],
      [ascii ''shannon'', ascii ''entropy'', ascii ''any'', ascii ''message'', ascii ''>='',
       ascii ''0''],
      [ascii ''entropy'', ascii ''isolated'', ascii ''system'', ascii ''never'',
       ascii ''decreases''],
      [ascii ''unknown'', ascii ''quantum'', ascii ''state'', ascii ''cannot'', ascii ''be'',
       ascii ''perfectly'', ascii ''cloned''],
      [ascii ''verifying'', ascii ''truth'', ascii ''floor'', ascii ''adds'', ascii ''zero'',
       ascii ''net'', ascii ''friction'']]"
  by (simp add: TRUTH_FLOOR_def aw_ev)

lemma spec_keywords_registry:
  "map (spec_keywords U) TRUTH_FLOOR = map set (map (axiom_words U) TRUTH_FLOOR)"
  by (simp add: axiom_words_set)

text \<open>The word-set rule of the specification, in a form that computes.\<close>

lemma spec_match_code:
  "spec_match U claim axiom \<longleftrightarrow>
     60 * length (axiom_words U axiom)
       \<le> 100 * length (filter (\<lambda>w. w \<in> set (py_split (py_lower U claim))) (axiom_words U axiom))"
proof -
  let ?ws = "filter (\<lambda>w. w \<in> set (py_split (py_lower U claim))) (axiom_words U axiom)"
  have "distinct ?ws"
    by (simp add: axiom_words_distinct)
  then have "length ?ws = card (set ?ws)"
    using distinct_card [of ?ws] by simp
  also have "set ?ws = {w \<in> spec_keywords U axiom. w \<in> spec_words (py_lower U claim)}"
    by (auto simp: axiom_words_set py_split_words)
  finally show ?thesis
    by (simp add: spec_match_def axiom_words_length)
qed

lemma lower_time_money: "py_lower U (ascii ''time = money'') = ascii ''time = money''"
  by (simp add: str_ev)

lemma floor_time_money:
  "check_truth_floor U (ascii ''time = money'') = Some (ascii ''E = h'' @ [957])"
  unfolding check_truth_floor_def lower_time_money
  by (simp add: TRUTH_FLOOR_def axiom_matches_def aw_ev fl_ev)

lemma spec_time_money:
  "List.find (spec_match U (ascii ''time = money'')) TRUTH_FLOOR = None"
  unfolding spec_match_code lower_time_money
  by (simp add: TRUTH_FLOOR_def aw_ev)

text \<open>
  Claim C3, as stated, with the claim tokenized to a word set as the specification
  says: it fails for the claim "time = money". Of the keywords e, =, h\<nu> of the fifth
  axiom only "=" is a word of the claim, one of three, so by the stated rule no axiom
  matches; the program finds "e" inside "time", counts two of three, and returns the
  axiom "E = h\<nu>".
\<close>

theorem truth_floor_words_counterexample:
  "check_truth_floor PLAIN (ascii ''time = money'') = Some (ascii ''E = h'' @ [957])
   \<and> List.find (spec_match PLAIN (ascii ''time = money'')) TRUTH_FLOOR = None
   \<and> check_truth_floor PLAIN (ascii ''time = money'')
       \<noteq> List.find (spec_match PLAIN (ascii ''time = money'')) TRUTH_FLOOR"
  by (simp add: floor_time_money spec_time_money)

text \<open>
  Claim C3, amended. For every claim, axiom matching lowercases the claim, takes for
  each axiom in registry order its keyword set (its lowercased words minus the stop
  words), counts an axiom as matching exactly when at least 60 percent of those
  keywords occur in the lowercased claim as substrings (whole words or not), and returns
  the first axiom of the registry that matches; "Energy is conserved" and "ENERGY IS
  CONSERVED" match the same axiom. The keyword sets of the registry are the ones listed.
\<close>

theorem truth_floor_substring_matching:
  "check_truth_floor U claim = List.find (substring_match U claim) TRUTH_FLOOR
   \<and> map (spec_keywords U) TRUTH_FLOOR =
       map set
         [[ascii ''this'', ascii ''statement'', ascii ''exists''],
          [ascii ''not-a'', ascii ''cannot'', ascii ''both'', ascii ''be'', ascii ''true'',
           ascii ''same'', ascii ''context''],
          [ascii ''energy'', ascii ''conserved''],
          [ascii ''c'', ascii ''='', ascii ''299792458'', ascii ''m/s'', ascii ''vacuum''],
          [ascii ''e'', ascii ''='', ascii ''h'' @ [957]],
          [[960], ascii ''transcendental''],
          [ascii ''e'', ascii ''transcendental''],
          [ascii ''every'', ascii ''integer'', ascii ''greater'', ascii ''than'', ascii ''1'',
           ascii ''has'', ascii ''unique'', ascii ''prime'', ascii ''factorization''],
          [ascii ''shannon'', ascii ''entropy'', ascii ''any'', ascii ''message'',
           ascii ''>='', ascii ''0''],
          [ascii ''entropy'', ascii ''isolated'', ascii ''system'', ascii ''never'',
           ascii ''decreases''],
          [ascii ''unknown'', ascii ''quantum'', ascii ''state'', ascii ''cannot'',
           ascii ''be'', ascii ''perfectly'', ascii ''cloned''],
          [ascii ''verifying'', ascii ''truth'', ascii ''floor'', ascii ''adds'',
           ascii ''zero'', ascii ''net'', ascii ''friction'']]
   \<and> check_truth_floor U (ascii ''Energy is conserved'') = Some (ascii ''Energy is conserved'')
   \<and> check_truth_floor U (ascii ''ENERGY IS CONSERVED'') = Some (ascii ''Energy is conserved'')"
proof -
  have "first_axiom U (py_lower U claim) TRUTH_FLOOR
      = List.find (substring_match U claim) TRUTH_FLOOR"
    by (rule first_axiom_find) (simp add: axiom_matches_substring)
  then show ?thesis
    unfolding spec_keywords_registry registry_keywords
    by (simp add: check_truth_floor_def lower_energy floor_energy)
qed

theorem truth_floor_substring_matching_witness:
  "List.find (substring_match PLAIN (ascii ''time = money'')) TRUTH_FLOOR
     = Some (ascii ''E = h'' @ [957])"
  using truth_floor_substring_matching [of PLAIN "ascii ''time = money''"]
  by (simp add: floor_time_money)

end
